theory Spec2Isabelle
  imports Complex_Main "HOL-Library.AList" "HOL-Library.Char_ord" "HOL-Library.List_Lexorder"
    "HOL-Library.Multiset"
begin

section \<open>JSON documents and Python dictionaries\<close>

text \<open>
  Every record of the memory store is one JSON document in one file. The operations read
  it with \<^verbatim>\<open>json.load\<close> and write it with \<^verbatim>\<open>json.dump\<close>, so the
  embedding works on the parsed value. An object is an association list in insertion order,
  as a Python \<^verbatim>\<open>dict\<close> is; a lookup takes the first binding of a key. A string is
  the list of the bytes of its UTF-8 encoding, which is what a file name is made of and which
  orders strings as Python orders them by code point. A \<^verbatim>\<open>float\<close> is the real number
  it stands for; \<^verbatim>\<open>NaN\<close> and the infinities, which \<^verbatim>\<open>json.load\<close> also reads,
  are not part of the embedding.
\<close>

datatype json =
    JNull
  | JBool bool
  | JInt int
  | JFloat real
  | JStr string
  | JArr "json list"
  | JObj "(string \<times> json) list"

type_synonym dict = "(string \<times> json) list"

text \<open>
  The exceptions. \<open>OSError\<close> stands for \<^verbatim>\<open>FileNotFoundError\<close> and the other errors
  that the operating system reports for a path. \<open>Unmodelled\<close> is no exception: it marks
  an input on which the embedding does not follow the code, so that no theorem speaks about
  it.
\<close>

datatype error =
    KeyError
  | TypeError
  | AttributeError
  | ValueError
  | OSError
  | Unmodelled

text \<open>\<^verbatim>\<open>d.get(k, default)\<close>\<close>

definition dict_get :: "dict \<Rightarrow> string \<Rightarrow> json \<Rightarrow> json" where
  "dict_get d k dflt = (case map_of d k of None \<Rightarrow> dflt | Some v \<Rightarrow> v)"

text \<open>\<^verbatim>\<open>d[k] = v\<close>: an existing key keeps its place, a new key goes last.\<close>

definition dict_set :: "string \<Rightarrow> json \<Rightarrow> dict \<Rightarrow> dict" where
  "dict_set k v d = AList.update k v d"

text \<open>\<^verbatim>\<open>d.update(other)\<close> and \<^verbatim>\<open>{**d, **other}\<close>: the bindings of
  \<open>other\<close> are stored one after the other.\<close>

definition dict_update :: "dict \<Rightarrow> dict \<Rightarrow> dict" where
  "dict_update d other = fold (\<lambda>(k, v). dict_set k v) other d"

text \<open>The value of a JSON number: Python compares \<^verbatim>\<open>int\<close>, \<^verbatim>\<open>bool\<close>
  (\<^verbatim>\<open>True\<close> is 1) and \<^verbatim>\<open>float\<close> by their exact values.\<close>

fun num_of :: "json \<Rightarrow> real option" where
  "num_of (JInt n) = Some (real_of_int n)"
| "num_of (JBool b) = Some (if b then 1 else 0)"
| "num_of (JFloat r) = Some r"
| "num_of _ = None"

text \<open>\<^verbatim>\<open>v < n\<close> for an integer literal \<open>n\<close>: \<^verbatim>\<open>TypeError\<close> on a value that is
  no number.\<close>

definition py_lt_int :: "json \<Rightarrow> int \<Rightarrow> error + bool" where
  "py_lt_int v n = (case num_of v of None \<Rightarrow> Inl TypeError | Some a \<Rightarrow> Inr (a < real_of_int n))"

section \<open>The store on disk\<close>

text \<open>
  A directory is the list of its \<^verbatim>\<open>*.json\<close> files, each a pair of the file name
  without the suffix and the document in it, in the order in which
  \<^verbatim>\<open>glob\<close> lists them. The store is the list of the subdirectories of
  \<^verbatim>\<open>memory/\<close> with their names, in the order of \<^verbatim>\<open>iterdir\<close>. The disk is
  the store, or \<open>None\<close> when there is no directory \<^verbatim>\<open>memory/\<close>.
\<close>

type_synonym dir = "(string \<times> json) list"
type_synonym store = "(string \<times> dir) list"
type_synonym disk = "store option"

text \<open>
  The code joins the names it is given into paths: \<^verbatim>\<open>memory_dir / category / f"{memory_id}.json"\<close>.
  The embedding follows it where the category is one path component that names a directory
  and the file name is one path component: no \<^verbatim>\<open>/\<close> and no NUL byte, not empty,
  \<^verbatim>\<open>.\<close> or \<^verbatim>\<open>..\<close>, and no longer than the 255 bytes of a POSIX file name.
  On other names the path leaves the directory or the operating system refuses it; there
  the operations answer \<open>Unmodelled\<close>.
\<close>

definition path_bytes :: "string \<Rightarrow> bool" where
  "path_bytes s = (CHR ''/'' \<notin> set s \<and> CHR 0x00 \<notin> set s)"

definition plain_name :: "string \<Rightarrow> bool" where
  "plain_name s = (path_bytes s \<and> s \<noteq> [] \<and> s \<noteq> ''.'' \<and> s \<noteq> ''..'' \<and> length s \<le> 255)"

definition plain_stem :: "string \<Rightarrow> bool" where
  "plain_stem s = (path_bytes s \<and> length s + 5 \<le> 255)"

section \<open>cleanup\_memories.py: the low-value sweep\<close>

text \<open>The test of one file in \<^verbatim>\<open>cleanup_low_value_memories\<close>:
  \<^verbatim>\<open>
  content = memory.get("content", {})
  access_count = content.get("access_count", 0)
  priority = content.get("priority", "medium")
  if access_count < 2 and priority == "low":
  \<close>\<close>

definition low_value :: "json \<Rightarrow> error + bool" where
  "low_value memory =
     (case memory of
        JObj m \<Rightarrow>
          (case dict_get m ''content'' (JObj []) of
             JObj content \<Rightarrow>
               (let access_count = dict_get content ''access_count'' (JInt 0);
                    priority = dict_get content ''priority'' (JStr ''medium'')
                in case py_lt_int access_count 2 of
                     Inl e \<Rightarrow> Inl e
                   | Inr b \<Rightarrow> Inr (b \<and> priority = JStr ''low''))
           | _ \<Rightarrow> Inl AttributeError)
      | _ \<Rightarrow> Inl AttributeError)"

text \<open>The loop over the files of one directory. A file that raises stops the sweep: the
  files deleted before it stay deleted, the others stay.\<close>

fun low_value_loop :: "dir \<Rightarrow> dir \<times> error option" where
  "low_value_loop [] = ([], None)"
| "low_value_loop ((stem, memory) # files) =
     (case low_value memory of
        Inl e \<Rightarrow> ((stem, memory) # files, Some e)
      | Inr True \<Rightarrow> low_value_loop files
      | Inr False \<Rightarrow>
          (case low_value_loop files of (d, e) \<Rightarrow> ((stem, memory) # d, e)))"

fun low_value_categories :: "string list \<Rightarrow> store \<Rightarrow> store \<times> error option" where
  "low_value_categories [] st = (st, None)"
| "low_value_categories (category # cs) st =
     (case map_of st category of
        None \<Rightarrow> low_value_categories cs st
      | Some d \<Rightarrow>
          (case low_value_loop d of
             (d', Some e) \<Rightarrow> (AList.update category d' st, Some e)
           | (d', None) \<Rightarrow> low_value_categories cs (AList.update category d' st)))"

text \<open>Without \<^verbatim>\<open>memory/\<close> neither directory exists and the sweep does nothing.\<close>

definition cleanup_low_value_memories :: "disk \<Rightarrow> disk \<times> error option" where
  "cleanup_low_value_memories disk =
     (case disk of
        None \<Rightarrow> (None, None)
      | Some st \<Rightarrow>
          (case low_value_categories [''development'', ''sessions''] st of
             (st', e) \<Rightarrow> (Some st', e)))"


section \<open>Timestamps\<close>

text \<open>
  A naive \<^verbatim>\<open>datetime\<close>, as \<^verbatim>\<open>datetime.now()\<close> returns it. Python compares two
  of them field by field, from the year down to the microsecond.
\<close>

record datetime =
  year :: nat
  month :: nat
  day :: nat
  hour :: nat
  minute :: nat
  second :: nat
  microsecond :: nat

definition is_leap :: "nat \<Rightarrow> bool" where
  "is_leap y = (y mod 4 = 0 \<and> (y mod 100 \<noteq> 0 \<or> y mod 400 = 0))"

definition days_in_month :: "nat \<Rightarrow> nat \<Rightarrow> nat" where
  "days_in_month y m =
     (if m = 2 then (if is_leap y then 29 else 28)
      else if m = 4 \<or> m = 6 \<or> m = 9 \<or> m = 11 then 30 else 31)"

definition valid_datetime :: "datetime \<Rightarrow> bool" where
  "valid_datetime t =
     (1 \<le> year t \<and> year t \<le> 9999 \<and> 1 \<le> month t \<and> month t \<le> 12 \<and>
      1 \<le> day t \<and> day t \<le> days_in_month (year t) (month t) \<and>
      hour t < 24 \<and> minute t < 60 \<and> second t < 60 \<and> microsecond t < 1000000)"

definition dt_key :: "datetime \<Rightarrow> nat list" where
  "dt_key t = [year t, month t, day t, hour t, minute t, second t, microsecond t]"

definition dt_less :: "datetime \<Rightarrow> datetime \<Rightarrow> bool" where
  "dt_less a b = (dt_key a < dt_key b)"

text \<open>The number of days from 0001-01-01, as \<^verbatim>\<open>datetime\<close> counts them to subtract
  two timestamps, and the microseconds of a timestamp from that origin.\<close>

definition days_before_year :: "nat \<Rightarrow> int" where
  "days_before_year y =
     (let p = int y - 1 in p * 365 + p div 4 - p div 100 + p div 400)"

definition days_before_month :: "nat \<Rightarrow> nat \<Rightarrow> int" where
  "days_before_month y m = int (sum_list (map (days_in_month y) [1..<m]))"

definition ymd_to_ord :: "nat \<Rightarrow> nat \<Rightarrow> nat \<Rightarrow> int" where
  "ymd_to_ord y m d = days_before_year y + days_before_month y m + int d"

definition to_microseconds :: "datetime \<Rightarrow> int" where
  "to_microseconds t =
     (((ymd_to_ord (year t) (month t) (day t) * 24 + int (hour t)) * 60 + int (minute t)) * 60
        + int (second t)) * 1000000 + int (microsecond t)"

text \<open>\<^verbatim>\<open>a - b\<close>, a \<^verbatim>\<open>timedelta\<close>, in microseconds.\<close>

definition dt_diff :: "datetime \<Rightarrow> datetime \<Rightarrow> int" where
  "dt_diff a b = to_microseconds a - to_microseconds b"

definition timedelta_hours :: "int \<Rightarrow> int" where
  "timedelta_hours h = h * 3600 * 1000000"

text \<open>Decimal digits, zero padded to a width (\<^verbatim>\<open>%04d\<close>, \<^verbatim>\<open>%02d\<close>, \<^verbatim>\<open>%06d\<close> on the
  fields of a valid timestamp, none of which needs more digits than its width).\<close>

definition digit_char :: "nat \<Rightarrow> char" where
  "digit_char n = char_of (48 + n)"

primrec zero_pad :: "nat \<Rightarrow> nat \<Rightarrow> string" where
  "zero_pad 0 n = []"
| "zero_pad (Suc k) n = zero_pad k (n div 10) @ [digit_char (n mod 10)]"

text \<open>\<^verbatim>\<open>isoformat()\<close>: \<^verbatim>\<open>YYYY-MM-DDTHH:MM:SS\<close>, followed by \<^verbatim>\<open>.ffffff\<close> unless
  the microsecond is 0.\<close>

definition isoformat :: "datetime \<Rightarrow> string" where
  "isoformat t =
     zero_pad 4 (year t) @ ''-'' @ zero_pad 2 (month t) @ ''-'' @ zero_pad 2 (day t) @ ''T'' @
     zero_pad 2 (hour t) @ '':'' @ zero_pad 2 (minute t) @ '':'' @ zero_pad 2 (second t) @
     (if microsecond t = 0 then [] else ''.'' @ zero_pad 6 (microsecond t))"

text \<open>\<^verbatim>\<open>strftime('%Y%m%d_%H%M%S')\<close>, for the years from 1000 on that
  \<^verbatim>\<open>datetime.now()\<close> reads.\<close>

definition strftime_id :: "datetime \<Rightarrow> string" where
  "strftime_id t =
     zero_pad 4 (year t) @ zero_pad 2 (month t) @ zero_pad 2 (day t) @ ''_'' @
     zero_pad 2 (hour t) @ zero_pad 2 (minute t) @ zero_pad 2 (second t)"

text \<open>
  \<^verbatim>\<open>datetime.fromisoformat\<close>, on the two shapes that \<^verbatim>\<open>isoformat()\<close> writes (19
  characters, or 26 with the microseconds; the character between date and time is free). A
  text of one of these shapes whose fields are out of range raises \<^verbatim>\<open>ValueError\<close>.
  Any other text is \<open>Unmodelled\<close>: Python reads further shapes of ISO 8601 (a date
  alone, a time zone), which shapes depends on its version.
\<close>

definition digit_val :: "char \<Rightarrow> nat option" where
  "digit_val c =
     (let n = (of_char c :: nat) in if 48 \<le> n \<and> n \<le> 57 then Some (n - 48) else None)"

fun parse_digits :: "nat \<Rightarrow> string \<Rightarrow> nat option" where
  "parse_digits acc [] = Some acc"
| "parse_digits acc (c # cs) =
     (case digit_val c of None \<Rightarrow> None | Some v \<Rightarrow> parse_digits (acc * 10 + v) cs)"

definition field :: "string \<Rightarrow> nat \<Rightarrow> nat \<Rightarrow> nat option" where
  "field s i n = parse_digits 0 (take n (drop i s))"

definition fromisoformat :: "string \<Rightarrow> error + datetime" where
  "fromisoformat s =
     (if length s \<noteq> 19 \<and> length s \<noteq> 26 then Inl Unmodelled
      else if s ! 4 \<noteq> CHR ''-'' \<or> s ! 7 \<noteq> CHR ''-'' \<or> s ! 13 \<noteq> CHR '':'' \<or> s ! 16 \<noteq> CHR '':''
              \<or> (length s = 26 \<and> s ! 19 \<noteq> CHR ''.'')
      then Inl Unmodelled
      else
        (case those [field s 0 4, field s 5 2, field s 8 2, field s 11 2, field s 14 2,
                     field s 17 2, if length s = 26 then field s 20 6 else Some 0] of
           Some [y, mo, d, h, mi, sec, us] \<Rightarrow>
             (let t = \<lparr>year = y, month = mo, day = d, hour = h, minute = mi, second = sec,
                       microsecond = us\<rparr>
              in if valid_datetime t then Inr t else Inl ValueError)
         | _ \<Rightarrow> Inl Unmodelled))"

section \<open>cleanup\_memories.py: the expiry sweep\<close>

text \<open>The test of one file in \<^verbatim>\<open>cleanup_expired_memories\<close>, at the clock reading
  \<open>now\<close>:
  \<^verbatim>\<open>
  created_at = datetime.fromisoformat(memory.get("created_at", "2025-01-01T00:00:00"))
  if datetime.now() - created_at > timedelta(hours=24):
  \<close>
  The key is read from the document itself, not from its \<^verbatim>\<open>content\<close>.\<close>

definition expired :: "datetime \<Rightarrow> json \<Rightarrow> error + bool" where
  "expired now memory =
     (case memory of
        JObj m \<Rightarrow>
          (case dict_get m ''created_at'' (JStr ''2025-01-01T00:00:00'') of
             JStr s \<Rightarrow>
               (case fromisoformat s of
                  Inl e \<Rightarrow> Inl e
                | Inr created_at \<Rightarrow> Inr (dt_diff now created_at > timedelta_hours 24))
           | _ \<Rightarrow> Inl TypeError)
      | _ \<Rightarrow> Inl AttributeError)"

text \<open>The loop reads the clock once for each file: \<open>clock i\<close> is the reading at the
  \<open>i\<close>-th file.\<close>

fun expired_loop :: "(nat \<Rightarrow> datetime) \<Rightarrow> nat \<Rightarrow> dir \<Rightarrow> dir \<times> error option" where
  "expired_loop clock i [] = ([], None)"
| "expired_loop clock i ((stem, memory) # files) =
     (case expired (clock i) memory of
        Inl e \<Rightarrow> ((stem, memory) # files, Some e)
      | Inr True \<Rightarrow> expired_loop clock (Suc i) files
      | Inr False \<Rightarrow>
          (case expired_loop clock (Suc i) files of (d, e) \<Rightarrow> ((stem, memory) # d, e)))"

definition cleanup_expired_memories :: "(nat \<Rightarrow> datetime) \<Rightarrow> disk \<Rightarrow> disk \<times> error option" where
  "cleanup_expired_memories clock disk =
     (case disk of
        None \<Rightarrow> (None, None)
      | Some st \<Rightarrow>
          (case map_of st ''sessions'' of
             None \<Rightarrow> (Some st, None)
           | Some d \<Rightarrow>
               (case expired_loop clock 0 d of
                  (d', e) \<Rightarrow> (Some (AList.update ''sessions'' d' st), e))))"


section \<open>agent\_memory\_integration.py: LCTMemorySystem\<close>

subsection \<open>Python operations on JSON values\<close>

text \<open>\<^verbatim>\<open>x.get(k, default)\<close>: only a \<^verbatim>\<open>dict\<close> has the method.\<close>

definition py_get :: "json \<Rightarrow> string \<Rightarrow> json \<Rightarrow> error + json" where
  "py_get x k dflt = (case x of JObj d \<Rightarrow> Inr (dict_get d k dflt) | _ \<Rightarrow> Inl AttributeError)"

text \<open>\<^verbatim>\<open>x[k]\<close> for a string \<open>k\<close>: \<^verbatim>\<open>KeyError\<close> on a \<^verbatim>\<open>dict\<close> without the
  key, \<^verbatim>\<open>TypeError\<close> on every other value.\<close>

definition py_index :: "json \<Rightarrow> string \<Rightarrow> error + json" where
  "py_index x k =
     (case x of
        JObj d \<Rightarrow> (case map_of d k of None \<Rightarrow> Inl KeyError | Some v \<Rightarrow> Inr v)
      | _ \<Rightarrow> Inl TypeError)"

text \<open>\<^verbatim>\<open>t in s\<close> on two strings: \<open>t\<close> occurs in \<open>s\<close>.\<close>

fun substring :: "string \<Rightarrow> string \<Rightarrow> bool" where
  "substring t [] = (t = [])"
| "substring t (c # s) = (take (length t) (c # s) = t \<or> substring t s)"

text \<open>\<^verbatim>\<open>tag in memory_tags\<close>: membership in a list, occurrence in a string, a key of a
  \<^verbatim>\<open>dict\<close>; \<^verbatim>\<open>TypeError\<close> on a value that is not a container.\<close>

definition py_in :: "string \<Rightarrow> json \<Rightarrow> error + bool" where
  "py_in tag x =
     (case x of
        JArr xs \<Rightarrow> Inr (JStr tag \<in> set xs)
      | JStr s \<Rightarrow> Inr (substring tag s)
      | JObj d \<Rightarrow> Inr (tag \<in> set (map fst d))
      | _ \<Rightarrow> Inl TypeError)"

text \<open>\<^verbatim>\<open>any(tag in memory_tags for tag in tags)\<close>, stopping at the first hit.\<close>

fun any_tag_in :: "string list \<Rightarrow> json \<Rightarrow> error + bool" where
  "any_tag_in [] x = Inr False"
| "any_tag_in (tag # tags) x =
     (case py_in tag x of
        Inl e \<Rightarrow> Inl e
      | Inr True \<Rightarrow> Inr True
      | Inr False \<Rightarrow> any_tag_in tags x)"

text \<open>\<^verbatim>\<open>x + 1\<close>. The sum of a \<^verbatim>\<open>float\<close> is rounded, which is not followed
  here.\<close>

fun py_add1 :: "json \<Rightarrow> error + json" where
  "py_add1 (JInt n) = Inr (JInt (n + 1))"
| "py_add1 (JBool b) = Inr (JInt ((if b then 1 else 0) + 1))"
| "py_add1 (JFloat r) = Inl Unmodelled"
| "py_add1 _ = Inl TypeError"

text \<open>The items of a string when Python iterates over it: its code points, each the
  bytes from a leading byte up to the next one.\<close>

definition is_cont :: "char \<Rightarrow> bool" where
  "is_cont c = (128 \<le> (of_char c :: nat) \<and> (of_char c :: nat) < 192)"

function code_points :: "string \<Rightarrow> string list" where
  "code_points [] = []"
| "code_points (c # cs) = (c # takeWhile is_cont cs) # code_points (dropWhile is_cont cs)"
  by pat_completeness auto
termination
  by (relation "measure length") (auto simp: less_Suc_eq_le length_dropWhile_le)

text \<open>
  \<^verbatim>\<open>target.update(arg)\<close>: \<open>target\<close> has to be a \<^verbatim>\<open>dict\<close>; \<open>arg\<close> is a
  \<^verbatim>\<open>dict\<close>, or an iterable of pairs. Every item of the iterable is read as a sequence,
  which has to have two items, a key and a value: a list of two values, a string of two
  code points, a \<^verbatim>\<open>dict\<close> of two keys. A key that is a list or a \<^verbatim>\<open>dict\<close> cannot
  be hashed. A key that is a number, a truth value or \<^verbatim>\<open>None\<close> is stored beside the
  string keys and turned into a string by \<^verbatim>\<open>json.dump\<close>; that is not followed here.
\<close>

fun pair_of :: "json \<Rightarrow> error + (json \<times> json)" where
  "pair_of (JArr xs) = (case xs of [k, v] \<Rightarrow> Inr (k, v) | _ \<Rightarrow> Inl ValueError)"
| "pair_of (JStr s) =
     (case code_points s of [a, b] \<Rightarrow> Inr (JStr a, JStr b) | _ \<Rightarrow> Inl ValueError)"
| "pair_of (JObj d) =
     (case map fst d of [k1, k2] \<Rightarrow> Inr (JStr k1, JStr k2) | _ \<Rightarrow> Inl ValueError)"
| "pair_of _ = Inl TypeError"

fun update_pairs :: "dict \<Rightarrow> json list \<Rightarrow> error + dict" where
  "update_pairs d [] = Inr d"
| "update_pairs d (x # xs) =
     (case pair_of x of
        Inl e \<Rightarrow> Inl e
      | Inr (k, v) \<Rightarrow>
          (case k of
             JStr key \<Rightarrow> update_pairs (dict_set key v d) xs
           | JArr ys \<Rightarrow> Inl TypeError
           | JObj ys \<Rightarrow> Inl TypeError
           | _ \<Rightarrow> Inl Unmodelled))"

definition py_dict_update :: "json \<Rightarrow> json \<Rightarrow> error + dict" where
  "py_dict_update target arg =
     (case target of
        JObj d \<Rightarrow>
          (case arg of
             JObj other \<Rightarrow> Inr (dict_update d other)
           | JArr xs \<Rightarrow> update_pairs d xs
           | JStr s \<Rightarrow> (if s = [] then Inr d else Inl ValueError)
           | _ \<Rightarrow> Inl TypeError)
      | _ \<Rightarrow> Inl AttributeError)"



text \<open>\<^verbatim>\<open>xs[:limit]\<close>: a negative limit drops that many items from the end.\<close>

definition py_slice_to :: "'a list \<Rightarrow> int \<Rightarrow> 'a list" where
  "py_slice_to xs limit =
     (if 0 \<le> limit then take (nat limit) xs else take (length xs - nat (- limit)) xs)"

subsection \<open>Files\<close>

text \<open>\<^verbatim>\<open>_save_memory_file\<close>: the path comes from the document's own
  \<^verbatim>\<open>category\<close> and \<^verbatim>\<open>memory_id\<close>, not from where the document was read;
  \<^verbatim>\<open>open(filepath, 'w')\<close> needs the directory to exist. A \<^verbatim>\<open>memory_id\<close> that is not
  a string would be formatted into the file name; that is not followed here.\<close>

definition save_memory_file :: "disk \<Rightarrow> json \<Rightarrow> error + disk" where
  "save_memory_file disk memory_data =
     (case py_index memory_data ''category'' of
        Inl e \<Rightarrow> Inl e
      | Inr category \<Rightarrow>
          (case py_index memory_data ''memory_id'' of
             Inl e \<Rightarrow> Inl e
           | Inr memory_id \<Rightarrow>
               (case category of
                  JStr c \<Rightarrow>
                    (case memory_id of
                       JStr stem \<Rightarrow>
                         if \<not> plain_name c \<or> \<not> plain_stem stem then Inl Unmodelled
                         else
                           (case disk of
                              None \<Rightarrow> Inl OSError
                            | Some st \<Rightarrow>
                                (case map_of st c of
                                   None \<Rightarrow> Inl OSError
                                 | Some d \<Rightarrow>
                                     Inr (Some (AList.update c
                                       (AList.update stem memory_data d) st))))
                     | _ \<Rightarrow> Inl Unmodelled)
                | _ \<Rightarrow> Inl TypeError)))"

text \<open>The loop of \<^verbatim>\<open>_find_memory_file\<close>: the first directory other than
  \<^verbatim>\<open>agents\<close> that holds \<^verbatim>\<open><memory_id>.json\<close>; the result is the directory's name
  and the document that \<^verbatim>\<open>json.load\<close> then reads from the file.\<close>

fun find_in :: "store \<Rightarrow> string \<Rightarrow> (string \<times> json) option" where
  "find_in [] memory_id = None"
| "find_in ((name, d) # st) memory_id =
     (if name \<noteq> ''agents'' then
        (case map_of d memory_id of
           Some memory \<Rightarrow> Some (name, memory)
         | None \<Rightarrow> find_in st memory_id)
      else find_in st memory_id)"

text \<open>\<^verbatim>\<open>_find_memory_file\<close>: \<^verbatim>\<open>memory_dir.iterdir()\<close> raises when there is no
  \<^verbatim>\<open>memory/\<close>.\<close>

definition find_memory_file :: "disk \<Rightarrow> string \<Rightarrow> error + (string \<times> json) option" where
  "find_memory_file disk memory_id =
     (case disk of
        None \<Rightarrow> Inl OSError
      | Some st \<Rightarrow>
          if \<not> plain_stem memory_id then Inl Unmodelled else Inr (find_in st memory_id))"

subsection \<open>add\_memory\<close>

text \<open>The three calls of \<^verbatim>\<open>datetime.now()\<close> are the readings \<open>now1\<close>, \<open>now2\<close>
  and \<open>now3\<close>. \<^verbatim>\<open>metadata or {}\<close> is the empty dictionary for \<^verbatim>\<open>None\<close>.\<close>

definition add_memory ::
  "disk \<Rightarrow> string \<Rightarrow> string \<Rightarrow> dict \<Rightarrow> dict option \<Rightarrow> string \<Rightarrow>
   datetime \<Rightarrow> datetime \<Rightarrow> datetime \<Rightarrow> error + (string \<times> disk)" where
  "add_memory st category memory_type content metadata agent now1 now2 now3 =
     (let memory_id = category @ ''_'' @ memory_type @ ''_'' @ strftime_id now1;
          memory_data = JObj
            [(''memory_id'', JStr memory_id),
             (''category'', JStr category),
             (''type'', JStr memory_type),
             (''content'', JObj (dict_update content
                [(''created_at'', JStr (isoformat now2)),
                 (''last_updated'', JStr (isoformat now3)),
                 (''access_count'', JInt 0)])),
             (''metadata'', JObj (dict_update
                [(''agent'', JStr agent),
                 (''created_by'', JStr agent),
                 (''last_updated_by'', JStr agent)]
                (case metadata of None \<Rightarrow> [] | Some md \<Rightarrow> md)))]
      in case save_memory_file st memory_data of
           Inl e \<Rightarrow> Inl e
         | Inr st' \<Rightarrow> Inr (memory_id, st'))"

subsection \<open>get\_memories\<close>

text \<open>\<^verbatim>\<open>if p and memory.get(key) != p\<close> for an optional string \<open>p\<close>: \<^verbatim>\<open>None\<close> and
  the empty string switch the filter off.\<close>

fun field_differs :: "json \<Rightarrow> string \<Rightarrow> string option \<Rightarrow> error + bool" where
  "field_differs memory key None = Inr False"
| "field_differs memory key (Some p) =
     (if p = [] then Inr False
      else case py_get memory key JNull of
             Inl e \<Rightarrow> Inl e
           | Inr v \<Rightarrow> Inr (v \<noteq> JStr p))"

text \<open>\<^verbatim>\<open>if agent and memory.get("metadata", {}).get("agent") != agent\<close>\<close>

fun agent_differs :: "json \<Rightarrow> string option \<Rightarrow> error + bool" where
  "agent_differs memory None = Inr False"
| "agent_differs memory (Some a) =
     (if a = [] then Inr False
      else case py_get memory ''metadata'' (JObj []) of
             Inl e \<Rightarrow> Inl e
           | Inr md \<Rightarrow>
               (case py_get md ''agent'' JNull of
                  Inl e \<Rightarrow> Inl e
                | Inr v \<Rightarrow> Inr (v \<noteq> JStr a)))"

text \<open>\<^verbatim>\<open>
  if tags:
      memory_tags = memory.get("content", {}).get("tags", [])
      if not any(tag in memory_tags for tag in tags):
  \<close>\<close>

fun no_tag_matches :: "json \<Rightarrow> string list option \<Rightarrow> error + bool" where
  "no_tag_matches memory None = Inr False"
| "no_tag_matches memory (Some tags) =
     (if tags = [] then Inr False
      else case py_get memory ''content'' (JObj []) of
             Inl e \<Rightarrow> Inl e
           | Inr c \<Rightarrow>
               (case py_get c ''tags'' (JArr []) of
                  Inl e \<Rightarrow> Inl e
                | Inr memory_tags \<Rightarrow>
                    (case any_tag_in tags memory_tags of
                       Inl e \<Rightarrow> Inl e
                     | Inr b \<Rightarrow> Inr (\<not> b))))"

definition matches_criteria ::
  "json \<Rightarrow> string option \<Rightarrow> string option \<Rightarrow> string list option \<Rightarrow> string option \<Rightarrow>
   error + bool" where
  "matches_criteria memory category memory_type tags agent =
     (case field_differs memory ''category'' category of
        Inl e \<Rightarrow> Inl e
      | Inr True \<Rightarrow> Inr False
      | Inr False \<Rightarrow>
     (case field_differs memory ''type'' memory_type of
        Inl e \<Rightarrow> Inl e
      | Inr True \<Rightarrow> Inr False
      | Inr False \<Rightarrow>
     (case agent_differs memory agent of
        Inl e \<Rightarrow> Inl e
      | Inr True \<Rightarrow> Inr False
      | Inr False \<Rightarrow>
     (case no_tag_matches memory tags of
        Inl e \<Rightarrow> Inl e
      | Inr True \<Rightarrow> Inr False
      | Inr False \<Rightarrow> Inr True))))"

text \<open>The directories to search: the named one if it exists, else every directory but
  \<^verbatim>\<open>agents\<close>, which \<^verbatim>\<open>memory_dir.iterdir()\<close> lists (and raises when there is no
  \<^verbatim>\<open>memory/\<close>).\<close>

definition search_dirs :: "disk \<Rightarrow> string option \<Rightarrow> error + dir list" where
  "search_dirs disk category =
     (if category \<noteq> None \<and> category \<noteq> Some [] then
        if \<not> plain_name (the category) then Inl Unmodelled
        else
          (case disk of
             None \<Rightarrow> Inr []
           | Some st \<Rightarrow> (case map_of st (the category) of None \<Rightarrow> Inr [] | Some d \<Rightarrow> Inr [d]))
      else
        (case disk of
           None \<Rightarrow> Inl OSError
         | Some st \<Rightarrow> Inr (map snd (filter (\<lambda>(name, d). name \<noteq> ''agents'') st))))"

text \<open>The loop over the files: a document that matches is appended.\<close>

fun collect :: "(json \<Rightarrow> error + bool) \<Rightarrow> json list \<Rightarrow> error + json list" where
  "collect p [] = Inr []"
| "collect p (memory # files) =
     (case p memory of
        Inl e \<Rightarrow> Inl e
      | Inr b \<Rightarrow>
          (case collect p files of
             Inl e \<Rightarrow> Inl e
           | Inr memories \<Rightarrow> Inr (if b then memory # memories else memories)))"

text \<open>The sort key \<^verbatim>\<open>x["content"]["created_at"]\<close>.\<close>

definition created_at_key :: "json \<Rightarrow> error + json" where
  "created_at_key x =
     (case py_index x ''content'' of Inl e \<Rightarrow> Inl e | Inr c \<Rightarrow> py_index c ''created_at'')"

fun sort_keys :: "json list \<Rightarrow> error + json list" where
  "sort_keys [] = Inr []"
| "sort_keys (x # xs) =
     (case created_at_key x of
        Inl e \<Rightarrow> Inl e
      | Inr k \<Rightarrow> (case sort_keys xs of Inl e \<Rightarrow> Inl e | Inr ks \<Rightarrow> Inr (k # ks)))"

text \<open>
  \<^verbatim>\<open>memories.sort(key=..., reverse=True)\<close>. Python's sort is stable; with
  \<^verbatim>\<open>reverse=True\<close> it reverses the list, sorts it in ascending order and reverses the
  result, so that items with equal keys keep their order. Strings are ordered character by
  character, numbers by value. Keys that Python cannot order among themselves raise
  \<^verbatim>\<open>TypeError\<close> once there are two of them; keys that are all lists are compared item
  by item, which is not followed here.
\<close>

definition sort_reverse :: "('k::linorder) list \<Rightarrow> 'a list \<Rightarrow> 'a list" where
  "sort_reverse ks xs = map snd (rev (sort_key fst (rev (zip ks xs))))"

fun str_of :: "json \<Rightarrow> string option" where
  "str_of (JStr s) = Some s"
| "str_of _ = None"

fun is_arr :: "json \<Rightarrow> bool" where
  "is_arr (JArr xs) = True"
| "is_arr _ = False"

definition sort_newest_first :: "json list \<Rightarrow> error + json list" where
  "sort_newest_first memories =
     (case sort_keys memories of
        Inl e \<Rightarrow> Inl e
      | Inr ks \<Rightarrow>
          (case those (map str_of ks) of
             Some strs \<Rightarrow> Inr (sort_reverse strs memories)
           | None \<Rightarrow>
               (case those (map num_of ks) of
                  Some nums \<Rightarrow> Inr (sort_reverse nums memories)
                | None \<Rightarrow>
                    if length memories \<le> 1 then Inr memories
                    else if list_all is_arr ks then Inl Unmodelled
                    else Inl TypeError)))"

text \<open>The documents that the two nested loops read, in their order.\<close>

definition scanned :: "disk \<Rightarrow> string option \<Rightarrow> error + json list" where
  "scanned disk category =
     (case search_dirs disk category of
        Inl e \<Rightarrow> Inl e
      | Inr dirs \<Rightarrow> Inr (concat (map (map snd) dirs)))"

definition matching ::
  "disk \<Rightarrow> string option \<Rightarrow> string option \<Rightarrow> string list option \<Rightarrow> string option \<Rightarrow>
   error + json list" where
  "matching disk category memory_type tags agent =
     (case scanned disk category of
        Inl e \<Rightarrow> Inl e
      | Inr files \<Rightarrow>
          collect (\<lambda>memory. matches_criteria memory category memory_type tags agent) files)"

definition get_memories ::
  "disk \<Rightarrow> string option \<Rightarrow> string option \<Rightarrow> string list option \<Rightarrow> string option \<Rightarrow> int \<Rightarrow>
   error + json list" where
  "get_memories disk category memory_type tags agent limit =
     (case matching disk category memory_type tags agent of
        Inl e \<Rightarrow> Inl e
      | Inr memories \<Rightarrow>
          (case sort_newest_first memories of
             Inl e \<Rightarrow> Inl e
           | Inr ordered \<Rightarrow> Inr (py_slice_to ordered limit)))"

subsection \<open>update\_memory and increment\_access\<close>

text \<open>One of the two blocks of \<^verbatim>\<open>update_memory\<close>:
  \<^verbatim>\<open>
  if key in updates:
      memory[key].update(updates[key])
      memory[key][stamp] = value
  \<close>\<close>

definition update_section :: "json \<Rightarrow> dict \<Rightarrow> string \<Rightarrow> string \<Rightarrow> json \<Rightarrow> error + json" where
  "update_section memory updates key stamp v =
     (case map_of updates key of
        None \<Rightarrow> Inr memory
      | Some arg \<Rightarrow>
          (case py_index memory key of
             Inl e \<Rightarrow> Inl e
           | Inr target \<Rightarrow>
               (case py_dict_update target arg of
                  Inl e \<Rightarrow> Inl e
                | Inr d \<Rightarrow>
                    (case memory of
                       JObj m \<Rightarrow> Inr (JObj (dict_set key (JObj (dict_set stamp v d)) m))
                     | _ \<Rightarrow> Inl TypeError))))"

definition update_memory ::
  "disk \<Rightarrow> string \<Rightarrow> dict \<Rightarrow> string \<Rightarrow> datetime \<Rightarrow> error + (bool \<times> disk)" where
  "update_memory disk memory_id updates agent now =
     (case find_memory_file disk memory_id of
        Inl e \<Rightarrow> Inl e
      | Inr None \<Rightarrow> Inr (False, disk)
      | Inr (Some (name, memory)) \<Rightarrow>
          (case update_section memory updates ''content'' ''last_updated'' (JStr (isoformat now)) of
             Inl e \<Rightarrow> Inl e
           | Inr memory1 \<Rightarrow>
               (case update_section memory1 updates ''metadata'' ''last_updated_by'' (JStr agent) of
                  Inl e \<Rightarrow> Inl e
                | Inr memory2 \<Rightarrow>
                    (case save_memory_file disk memory2 of
                       Inl e \<Rightarrow> Inl e
                     | Inr disk' \<Rightarrow> Inr (True, disk')))))"

definition increment_access :: "disk \<Rightarrow> string \<Rightarrow> datetime \<Rightarrow> error + (bool \<times> disk)" where
  "increment_access disk memory_id now =
     (case find_memory_file disk memory_id of
        Inl e \<Rightarrow> Inl e
      | Inr None \<Rightarrow> Inr (False, disk)
      | Inr (Some (name, memory)) \<Rightarrow>
          (case py_index memory ''content'' of
             Inl e \<Rightarrow> Inl e
           | Inr c \<Rightarrow>
               (case py_get c ''access_count'' (JInt 0) of
                  Inl e \<Rightarrow> Inl e
                | Inr a \<Rightarrow>
                    (case py_add1 a of
                       Inl e \<Rightarrow> Inl e
                     | Inr a' \<Rightarrow>
                         (case (c, memory) of
                            (JObj d, JObj m) \<Rightarrow>
                              (let d' = dict_set ''last_accessed'' (JStr (isoformat now))
                                          (dict_set ''access_count'' a' d);
                                   memory' = JObj (dict_set ''content'' (JObj d') m)
                               in case save_memory_file disk memory' of
                                    Inl e \<Rightarrow> Inl e
                                  | Inr disk' \<Rightarrow> Inr (True, disk'))
                          | _ \<Rightarrow> Inl TypeError)))))"

section \<open>Stored records\<close>

text \<open>The value of a key of the \<^verbatim>\<open>content\<close> of the record that
  \<^verbatim>\<open>_find_memory_file\<close> finds for an id.\<close>

definition content_field :: "disk \<Rightarrow> string \<Rightarrow> string \<Rightarrow> json option" where
  "content_field disk memory_id k =
     (case find_memory_file disk memory_id of
        Inr (Some (name, memory)) \<Rightarrow>
          (case py_index memory ''content'' of
             Inr (JObj c) \<Rightarrow> map_of c k
           | _ \<Rightarrow> None)
      | _ \<Rightarrow> None)"

text \<open>A record file that the low-value sweep can read: a JSON object whose
  \<^verbatim>\<open>content\<close>, if it has one, is an object whose \<^verbatim>\<open>access_count\<close>, if it has
  one, is a number.\<close>

definition sweepable :: "json \<Rightarrow> bool" where
  "sweepable memory =
     (case memory of
        JObj m \<Rightarrow>
          (case map_of m ''content'' of
             None \<Rightarrow> True
           | Some (JObj c) \<Rightarrow>
               (case map_of c ''access_count'' of None \<Rightarrow> True | Some v \<Rightarrow> num_of v \<noteq> None)
           | Some _ \<Rightarrow> False)
      | _ \<Rightarrow> False)"

text \<open>The files of a directory that are not of low value.\<close>

definition swept :: "dir \<Rightarrow> dir" where
  "swept d = filter (\<lambda>(stem, memory). low_value memory = Inr False) d"

section \<open>Example stores\<close>

text \<open>Records with the two fields that the low-value sweep reads, the three of the
  boundary among them, and a record whose access count is a string.\<close>

definition rec_low :: "string \<Rightarrow> json \<Rightarrow> string \<Rightarrow> json" where
  "rec_low stem n p =
     JObj [(''memory_id'', JStr stem),
           (''content'', JObj [(''access_count'', n), (''priority'', JStr p)])]"

definition sweep_store :: store where
  "sweep_store =
     [(''development'',
         [(''a'', rec_low ''a'' (JInt 1) ''low''), (''b'', rec_low ''b'' (JInt 2) ''low''),
          (''c'', rec_low ''c'' (JInt 0) ''high''), (''g'', rec_low ''g'' (JFloat (3 / 2)) ''low'')]),
      (''sessions'',
         [(''d'', JObj [(''content'', JObj [(''priority'', JStr ''low'')])]), (''e'', JObj [])]),
      (''project'', [(''f'', rec_low ''f'' (JInt 0) ''low'')])]"

definition sweep_store_swept :: store where
  "sweep_store_swept =
     [(''development'',
         [(''b'', rec_low ''b'' (JInt 2) ''low''), (''c'', rec_low ''c'' (JInt 0) ''high'')]),
      (''sessions'', [(''e'', JObj [])]),
      (''project'', [(''f'', rec_low ''f'' (JInt 0) ''low'')])]"

definition blocked_store :: store where
  "blocked_store =
     [(''development'',
         [(''h'', rec_low ''h'' (JStr ''many'') ''high''), (''a'', rec_low ''a'' (JInt 1) ''low'')])]"

text \<open>A session record as \<^verbatim>\<open>add_memory\<close> writes it, and the store that holds it.\<close>

definition noon :: datetime where
  "noon = \<lparr>year = 2025, month = 6, day = 1, hour = 12, minute = 0, second = 0,
            microsecond = 0\<rparr>"

definition later :: datetime where
  "later = \<lparr>year = 2025, month = 6, day = 2, hour = 11, minute = 59, second = 0,
             microsecond = 0\<rparr>"

definition ex_id :: string where
  "ex_id = ''sessions_test_20250601_120000''"

definition example_content :: dict where
  "example_content =
     [(''title'', JStr ''Test Memory''),
      (''description'', JStr ''This is a test memory''),
      (''tags'', JArr [JStr ''test'']),
      (''priority'', JStr ''medium'')]"


definition example_record :: "dict \<Rightarrow> json" where
  "example_record c =
     JObj [(''memory_id'', JStr ''sessions_test_20250601_120000''),
           (''category'', JStr ''sessions''),
           (''type'', JStr ''test''),
           (''content'', JObj c),
           (''metadata'', JObj [(''agent'', JStr ''system''), (''created_by'', JStr ''system''),
                                (''last_updated_by'', JStr ''system'')])]"

definition stamped :: "dict \<Rightarrow> string \<Rightarrow> string \<Rightarrow> int \<Rightarrow> dict" where
  "stamped c created updated n =
     c @ [(''created_at'', JStr created), (''last_updated'', JStr updated),
          (''access_count'', JInt n)]"

definition store_with :: "json \<Rightarrow> store" where
  "store_with r =
     [(''project'', []), (''development'', []),
      (''sessions'', [(''sessions_test_20250601_120000'', r)]),
      (''shared'', []), (''agents'', [])]"

definition example_store :: store where
  "example_store =
     store_with (example_record
       (stamped example_content ''2025-06-01T12:00:00'' ''2025-06-01T12:00:00'' 5))"

text \<open>The store before and after \<^verbatim>\<open>add_memory\<close> of the example content at noon, and a
  clock that reads 23 hours and 59 minutes later at every file.\<close>

definition emptied_store :: store where
  "emptied_store =
     [(''project'', []), (''development'', []), (''sessions'', []), (''shared'', []),
      (''agents'', [])]"

definition fresh_store :: store where
  "fresh_store =
     store_with (example_record
       (stamped example_content ''2025-06-01T12:00:00'' ''2025-06-01T12:00:00'' 0))"

definition clock_later :: "nat \<Rightarrow> datetime" where
  "clock_later i = later"

definition epoch :: datetime where
  "epoch = \<lparr>year = 2025, month = 1, day = 1, hour = 0, minute = 0, second = 0,
             microsecond = 0\<rparr>"






section \<open>The low-value sweep\<close>

lemma map_of_filter_distinct:
  "distinct (map fst d) \<Longrightarrow> (k, v) \<in> set d \<Longrightarrow>
   map_of (filter P d) k = (if P (k, v) then Some v else None)"
  by (induction d) (auto simp: rev_image_eqI map_of_eq_None_iff)

text \<open>On a file that it can read the test is the one of the specification, with the two
  defaults.\<close>

lemma low_value_fields:
  assumes "map_of m ''content'' = Some (JObj c) \<or> map_of m ''content'' = None \<and> c = []"
    and "num_of (dict_get c ''access_count'' (JInt 0)) = Some a"
  shows "low_value (JObj m) =
           Inr (a < 2 \<and> dict_get c ''priority'' (JStr ''medium'') = JStr ''low'')"
  using assms by (auto simp: low_value_def dict_get_def py_lt_int_def Let_def)

lemma sweepable_low_value: "sweepable memory \<Longrightarrow> \<exists>b. low_value memory = Inr b"
  by (auto simp: sweepable_def low_value_def dict_get_def py_lt_int_def Let_def
        split: json.splits option.splits)

text \<open>The loop over a directory of readable files runs to its end and keeps the files that
  are not of low value.\<close>

lemma low_value_loop_sweepable:
  "\<forall>(stem, memory) \<in> set d. sweepable memory \<Longrightarrow>
   low_value_loop d = (filter (\<lambda>(stem, memory). low_value memory = Inr False) d, None)"
proof (induction d)
  case Nil
  then show ?case by simp
next
  case (Cons p d)
  obtain stem memory where p: "p = (stem, memory)" by (cases p)
  from Cons.prems have "sweepable memory" by (simp add: p)
  then obtain b where "low_value memory = Inr b" using sweepable_low_value by blast
  moreover from Cons have "low_value_loop d =
      (filter (\<lambda>(stem, memory). low_value memory = Inr False) d, None)" by simp
  ultimately show ?case by (cases b) (simp_all add: p)
qed

text \<open>The whole sweep, on a store whose development and sessions files are readable.\<close>

lemma cleanup_low_value_result:
  assumes "\<forall>category d. (category = ''development'' \<or> category = ''sessions'') \<and>
      map_of st category = Some d \<longrightarrow> (\<forall>(stem, memory) \<in> set d. sweepable memory)"
  shows "\<exists>st'. cleanup_low_value_memories (Some st) = (Some st', None) \<and>
           (\<forall>category. map_of st' category =
              (if category = ''development'' \<or> category = ''sessions''
               then map_option swept (map_of st category) else map_of st category))"
proof -
  have dev: "low_value_loop d = (swept d, None)" if "map_of st ''development'' = Some d" for d
    unfolding swept_def using assms that by (intro low_value_loop_sweepable) blast
  have ses: "low_value_loop d = (swept d, None)" if "map_of st ''sessions'' = Some d" for d
    unfolding swept_def using assms that by (intro low_value_loop_sweepable) blast
  show ?thesis
  proof (cases "map_of st ''development''")
    case None
    show ?thesis
    proof (cases "map_of st ''sessions''")
      case N2: None
      with None show ?thesis by (simp add: cleanup_low_value_memories_def)
    next
      case (Some d2)
      with None ses [OF Some] show ?thesis
        by (simp add: cleanup_low_value_memories_def update_conv')
    qed
  next
    case (Some d1)
    note d1 = Some
    show ?thesis
    proof (cases "map_of st ''sessions''")
      case None
      with d1 dev [OF d1] show ?thesis
        by (simp add: cleanup_low_value_memories_def update_conv')
    next
      case (Some d2)
      with d1 dev [OF d1] ses [OF Some] show ?thesis
        by (simp add: cleanup_low_value_memories_def update_conv')
    qed
  qed
qed

text \<open>
  Claim C7 fails as it is stated: the sweep stops at the first file that it cannot read.
  Here the first file of \<^verbatim>\<open>development/\<close> has a string as its access count; the
  comparison raises \<^verbatim>\<open>TypeError\<close>, and the record after it, with access count 1 and
  priority low, is still there.
\<close>

theorem low_value_sweep_blocked:
  "cleanup_low_value_memories (Some blocked_store) = (Some blocked_store, Some TypeError) \<and>
   map_of blocked_store ''development'' =
     Some [(''h'', rec_low ''h'' (JStr ''many'') ''high''), (''a'', rec_low ''a'' (JInt 1) ''low'')] \<and>
   low_value (rec_low ''a'' (JInt 1) ''low'') = Inr True"
  by (simp add: cleanup_low_value_memories_def blocked_store_def rec_low_def low_value_def
        dict_get_def py_lt_int_def)

text \<open>
  Claim C7, amended. When every file of the development and the sessions directory is
  readable (a JSON object whose content, if present, is an object whose access count, if
  present, is a number), the sweep runs to its end, and a file of one of the two directories
  is gone afterwards if and only if its \<^verbatim>\<open>content.access_count\<close> (0 when absent) is
  below 2 and its \<^verbatim>\<open>content.priority\<close> (\<^verbatim>\<open>"medium"\<close> when absent) is
  \<^verbatim>\<open>"low"\<close>; otherwise the file is still there with the same document.
\<close>

theorem low_value_sweep_deletes_iff:
  assumes readable: "\<forall>category d. (category = ''development'' \<or> category = ''sessions'') \<and>
      map_of st category = Some d \<longrightarrow> (\<forall>(stem, memory) \<in> set d. sweepable memory)"
    and cat: "category = ''development'' \<or> category = ''sessions''"
    and dir: "map_of st category = Some d" "distinct (map fst d)"
    and entry: "(stem, JObj m) \<in> set d"
    and content: "map_of m ''content'' = Some (JObj c) \<or> map_of m ''content'' = None \<and> c = []"
    and ac: "num_of (dict_get c ''access_count'' (JInt 0)) = Some a"
    and pr: "dict_get c ''priority'' (JStr ''medium'') = p"
  shows "\<exists>st' d'. cleanup_low_value_memories (Some st) = (Some st', None) \<and>
           map_of st' category = Some d' \<and>
           (map_of d' stem = None \<longleftrightarrow> a < 2 \<and> p = JStr ''low'') \<and>
           (map_of d' stem = Some (JObj m) \<longleftrightarrow> \<not> (a < 2 \<and> p = JStr ''low''))"
proof -
  from cleanup_low_value_result [OF readable] obtain st' where
    run: "cleanup_low_value_memories (Some st) = (Some st', None)"
    and dirs: "\<forall>category. map_of st' category =
              (if category = ''development'' \<or> category = ''sessions''
               then map_option swept (map_of st category) else map_of st category)"
    by blast
  from dirs cat dir(1) have d': "map_of st' category = Some (swept d)" by auto
  have "map_of (swept d) stem =
      (if low_value (JObj m) = Inr False then Some (JObj m) else None)"
    unfolding swept_def using map_of_filter_distinct [OF dir(2) entry] by simp
  moreover have "low_value (JObj m) = Inr (a < 2 \<and> p = JStr ''low'')"
    using low_value_fields [OF content ac] pr by simp
  ultimately have "(map_of (swept d) stem = None \<longleftrightarrow> a < 2 \<and> p = JStr ''low'') \<and>
      (map_of (swept d) stem = Some (JObj m) \<longleftrightarrow> \<not> (a < 2 \<and> p = JStr ''low''))"
    by auto
  with run d' show ?thesis
    by (intro exI [of _ st'] exI [of _ "swept d"]) simp
qed

text \<open>The sweep leaves the other categories alone.\<close>

lemma low_value_sweep_other_categories:
  assumes "\<forall>category d. (category = ''development'' \<or> category = ''sessions'') \<and>
      map_of st category = Some d \<longrightarrow> (\<forall>(stem, memory) \<in> set d. sweepable memory)"
    and "category \<noteq> ''development''" "category \<noteq> ''sessions''"
  shows "\<exists>st'. cleanup_low_value_memories (Some st) = (Some st', None) \<and>
           map_of st' category = map_of st category"
  using cleanup_low_value_result [OF assms(1)] assms(2,3) by auto

lemma sweep_store_run:
  "cleanup_low_value_memories (Some sweep_store) = (Some sweep_store_swept, None)"
  by (simp add: cleanup_low_value_memories_def sweep_store_def sweep_store_swept_def
        rec_low_def low_value_def dict_get_def py_lt_int_def)

lemma sweep_store_readable:
  "\<forall>category d. (category = ''development'' \<or> category = ''sessions'') \<and>
      map_of sweep_store category = Some d \<longrightarrow> (\<forall>(stem, memory) \<in> set d. sweepable memory)"
  by (auto simp: sweep_store_def sweepable_def rec_low_def)

text \<open>The three records of the boundary: access count 1 and priority low is deleted, access
  count 2 and priority low is kept, access count 0 and priority high is kept.\<close>

theorem low_value_sweep_deletes_iff_witness:
  "cleanup_low_value_memories (Some sweep_store) = (Some sweep_store_swept, None) \<and>
   (\<exists>d'. map_of sweep_store_swept ''development'' = Some d' \<and>
      map_of d' ''a'' = None \<and>
      map_of d' ''b'' = Some (rec_low ''b'' (JInt 2) ''low'') \<and>
      map_of d' ''c'' = Some (rec_low ''c'' (JInt 0) ''high''))"
proof -
  have d: "map_of sweep_store ''development'' =
      Some [(''a'', rec_low ''a'' (JInt 1) ''low''), (''b'', rec_low ''b'' (JInt 2) ''low''),
            (''c'', rec_low ''c'' (JInt 0) ''high''),
            (''g'', rec_low ''g'' (JFloat (3 / 2)) ''low'')]"
    by (simp add: sweep_store_def)
  have "\<exists>st' d'. cleanup_low_value_memories (Some sweep_store) = (Some st', None) \<and>
      map_of st' ''development'' = Some d' \<and>
      (map_of d' ''a'' = None \<longleftrightarrow> (1::real) < 2 \<and> JStr ''low'' = JStr ''low'') \<and>
      (map_of d' ''a'' = Some (JObj [(''memory_id'', JStr ''a''),
           (''content'', JObj [(''access_count'', JInt 1), (''priority'', JStr ''low'')])])
         \<longleftrightarrow> \<not> ((1::real) < 2 \<and> JStr ''low'' = JStr ''low''))"
    by (rule low_value_sweep_deletes_iff [OF sweep_store_readable _ d,
          where c = "[(''access_count'', JInt 1), (''priority'', JStr ''low'')]"])
       (simp_all add: rec_low_def dict_get_def)
  then show ?thesis
    using sweep_store_run by (auto simp: sweep_store_swept_def)
qed

section \<open>Dictionaries and files\<close>

lemma map_of_dict_set: "map_of (dict_set k v d) = (map_of d)(k \<mapsto> v)"
  by (simp add: dict_set_def update_conv')

lemma map_of_fold_dict_set:
  "map_of (fold (\<lambda>(k, v). dict_set k v) other d) = map_of d ++ map_of (rev other)"
  by (induction other arbitrary: d)
     (auto simp: map_of_dict_set map_add_def fun_eq_iff split: option.splits)

lemma map_of_rev_distinct: "distinct (map fst xs) \<Longrightarrow> map_of (rev xs) = map_of xs"
proof (induction xs)
  case Nil
  then show ?case by simp
next
  case (Cons p xs)
  obtain a b where p: "p = (a, b)" by (cases p)
  from Cons.prems have "a \<notin> dom (map_of xs)"
    by (simp add: p dom_map_of_conv_image_fst)
  then have "Map.empty(a \<mapsto> b) ++ map_of xs = (map_of xs)(a \<mapsto> b)"
    by (simp add: map_add_upd_left)
  with Cons show ?case by (simp add: p)
qed

lemma map_of_dict_update:
  "distinct (map fst other) \<Longrightarrow> map_of (dict_update d other) = map_of d ++ map_of other"
  by (simp add: dict_update_def map_of_fold_dict_set map_of_rev_distinct)



text \<open>Names that the code composes.\<close>

lemma path_bytes_append [simp]: "path_bytes (a @ b) \<longleftrightarrow> path_bytes a \<and> path_bytes b"
  by (auto simp: path_bytes_def)

lemma path_bytes_Nil [simp]: "path_bytes []"
  by (simp add: path_bytes_def)

lemma path_bytes_Cons [simp]:
  "path_bytes (c # s) \<longleftrightarrow> c \<noteq> CHR ''/'' \<and> c \<noteq> CHR 0x00 \<and> path_bytes s"
  by (auto simp: path_bytes_def)

lemma path_bytes_digit: "path_bytes [digit_char (n mod 10)]"
proof -
  have code: "(of_char (digit_char (n mod 10)) :: nat) = 48 + n mod 10"
    by (simp add: digit_char_def)
  have "digit_char (n mod 10) \<noteq> CHR ''/''"
  proof
    assume "digit_char (n mod 10) = CHR ''/''"
    then have "(of_char (digit_char (n mod 10)) :: nat) = of_char (CHR ''/'')" by simp
    with code show False by simp
  qed
  moreover have "digit_char (n mod 10) \<noteq> CHR 0x00"
  proof
    assume "digit_char (n mod 10) = CHR 0x00"
    then have "(of_char (digit_char (n mod 10)) :: nat) = of_char (CHR 0x00)" by simp
    with code show False by simp
  qed
  ultimately show ?thesis by simp
qed

lemma path_bytes_zero_pad [simp]: "path_bytes (zero_pad k n)"
  by (induction k arbitrary: n) (simp_all add: path_bytes_digit del: path_bytes_Cons)

lemma length_zero_pad [simp]: "length (zero_pad k n) = k"
  by (induction k arbitrary: n) simp_all

lemma path_bytes_strftime [simp]: "path_bytes (strftime_id t)"
  by (simp add: strftime_id_def)

lemma length_strftime [simp]: "length (strftime_id t) = 15"
  by (simp add: strftime_id_def)

lemma plain_new_id:
  assumes "plain_name category" "path_bytes memory_type"
    "length category + length memory_type + 22 \<le> 255"
  shows "plain_stem (category @ ''_'' @ memory_type @ ''_'' @ strftime_id t)"
  using assms by (simp add: plain_stem_def plain_name_def)

text \<open>Writing a record.\<close>

lemma save_memory_file_new:
  assumes "map_of st category = Some d" "map_of m ''category'' = Some (JStr category)"
    "map_of m ''memory_id'' = Some (JStr stem)" "plain_name category" "plain_stem stem"
  shows "save_memory_file (Some st) (JObj m) =
           Inr (Some (AList.update category (AList.update stem (JObj m) d) st))"
  using assms by (simp add: save_memory_file_def py_index_def)

lemma save_memory_file_Inr:
  assumes "save_memory_file disk memory = Inr disk'"
  obtains st c stem d where "disk = Some st"
    "py_index memory ''category'' = Inr (JStr c)"
    "py_index memory ''memory_id'' = Inr (JStr stem)"
    "plain_name c" "plain_stem stem" "map_of st c = Some d"
    "disk' = Some (AList.update c (AList.update stem memory d) st)"
  using assms
  by (auto simp: save_memory_file_def split: sum.splits json.splits option.splits if_splits)

text \<open>Finding a record, before and after a file is written.\<close>

lemma find_in_None:
  "find_in st memory_id = None \<longleftrightarrow>
     (\<forall>(name, d) \<in> set st. name \<noteq> ''agents'' \<longrightarrow> map_of d memory_id = None)"
  by (induction st) (auto split: option.splits if_splits)













section \<open>The example store\<close>

lemma isoformat_later: "isoformat later = ''2025-06-02T11:59:00''"
  by code_simp

lemma isoformat_noon: "isoformat noon = ''2025-06-01T12:00:00''"
  by code_simp

lemma strftime_noon: "strftime_id noon = ''20250601_120000''"
  by code_simp

lemma strftime_later: "strftime_id later = ''20250602_115900''"
  by code_simp

lemma plain_ex_id: "plain_stem ex_id"
  by (simp add: plain_stem_def ex_id_def)


lemma plain_sessions: "plain_name ''sessions''"
  by (simp add: plain_name_def)


lemma example_store_find:
  "find_memory_file (Some (store_with r)) ex_id = Inr (Some (''sessions'', r))"
  by (simp add: find_memory_file_def plain_ex_id) (simp add: store_with_def ex_id_def)

lemma content_field_store_with:
  "content_field (Some (store_with (example_record c))) ex_id k = map_of c k"
  by (simp add: content_field_def example_store_find example_record_def py_index_def)








section \<open>Unknown ids\<close>

text \<open>
  Claim C9 fails as it is stated: without a directory \<^verbatim>\<open>memory/\<close> no id matches a
  stored record file, and \<^verbatim>\<open>_find_memory_file\<close> raises from
  \<^verbatim>\<open>memory_dir.iterdir()\<close> instead of reporting \<^verbatim>\<open>False\<close>.
\<close>

theorem unknown_id_raises_without_memory_dir:
  "update_memory None ex_id [(''content'', JObj [(''priority'', JStr ''low'')])] ''system'' later =
     Inl OSError \<and>
   increment_access None ex_id later = Inl OSError"
  by (simp add: update_memory_def increment_access_def find_memory_file_def)

text \<open>
  Claim C9, amended. When \<^verbatim>\<open>memory/\<close> exists, the id is a file name (no path separator,
  no NUL byte, \<^verbatim>\<open><id>.json\<close> within 255 bytes) and no directory other than
  \<^verbatim>\<open>agents\<close> holds a file for it, \<^verbatim>\<open>update_memory\<close> and \<^verbatim>\<open>increment_access\<close>
  both return \<^verbatim>\<open>False\<close>, raise nothing, and leave the store as it is.
\<close>

theorem unknown_id_reports_false:
  assumes "plain_stem memory_id"
    and "\<forall>(name, d) \<in> set st. name \<noteq> ''agents'' \<longrightarrow> map_of d memory_id = None"
  shows "update_memory (Some st) memory_id updates agent now = Inr (False, Some st) \<and>
         increment_access (Some st) memory_id now' = Inr (False, Some st)"
proof -
  from assms(2) have "find_in st memory_id = None"
    by (simp add: find_in_None)
  with assms(1) show ?thesis
    by (simp add: update_memory_def increment_access_def find_memory_file_def)
qed

theorem unknown_id_reports_false_witness:
  "plain_stem ''sessions_test_19990101_000000'' \<and>
   update_memory (Some example_store) ''sessions_test_19990101_000000''
      [(''content'', JObj [(''priority'', JStr ''low'')])] ''system'' later =
     Inr (False, Some example_store) \<and>
   increment_access (Some example_store) ''sessions_test_19990101_000000'' later =
     Inr (False, Some example_store)"
proof -
  have p: "plain_stem ''sessions_test_19990101_000000''"
    by (simp add: plain_stem_def)
  have "\<forall>(name, d) \<in> set example_store. name \<noteq> ''agents'' \<longrightarrow>
      map_of d ''sessions_test_19990101_000000'' = None"
    by (simp add: example_store_def store_with_def)
  from unknown_id_reports_false [OF p this] p show ?thesis by simp
qed

section \<open>Creation\<close>

text \<open>
  Claim C10. Whenever \<^verbatim>\<open>add_memory\<close> returns, the record that it has written has the
  stamps of the system in its content, whatever the caller's content says under these keys:
  \<^verbatim>\<open>created_at\<close> and \<^verbatim>\<open>last_updated\<close> are the clock readings and
  \<^verbatim>\<open>access_count\<close> is 0. In the metadata it is the other way round: a key that the caller
  supplies keeps the caller's value, and \<^verbatim>\<open>agent\<close>, \<^verbatim>\<open>created_by\<close> and
  \<^verbatim>\<open>last_updated_by\<close> are the agent only where the caller supplies none. And
  \<^verbatim>\<open>add_memory\<close> does return when the category names a directory of the store and the
  id that it composes is a file name.
\<close>

theorem add_memory_stamps_win:
  assumes md: "distinct (map fst md)" "metadata = Some md \<or> metadata = None \<and> md = []"
  shows "(\<forall>memory_id disk'.
            add_memory disk category memory_type content metadata agent now1 now2 now3 =
              Inr (memory_id, disk') \<longrightarrow>
            (\<exists>st' d' m c meta.
               disk' = Some st' \<and>
               map_of st' category = Some d' \<and>
               map_of d' memory_id = Some (JObj m) \<and>
               map_of m ''content'' = Some (JObj c) \<and>
               map_of c ''created_at'' = Some (JStr (isoformat now2)) \<and>
               map_of c ''last_updated'' = Some (JStr (isoformat now3)) \<and>
               map_of c ''access_count'' = Some (JInt 0) \<and>
               map_of m ''metadata'' = Some (JObj meta) \<and>
               (\<forall>k. map_of meta k =
                  (case map_of md k of
                     Some v \<Rightarrow> Some v
                   | None \<Rightarrow> if k \<in> {''agent'', ''created_by'', ''last_updated_by''}
                              then Some (JStr agent) else None)))) \<and>
         (\<forall>st d. disk = Some st \<and> map_of st category = Some d \<and> plain_name category \<and>
            path_bytes memory_type \<and> length category + length memory_type + 22 \<le> 255 \<longrightarrow>
            (\<exists>disk'. add_memory disk category memory_type content metadata agent now1 now2 now3 =
               Inr (category @ ''_'' @ memory_type @ ''_'' @ strftime_id now1, disk')))"
proof -
  define nid where "nid = category @ ''_'' @ memory_type @ ''_'' @ strftime_id now1"
  define c where "c = dict_update content
                [(''created_at'', JStr (isoformat now2)),
                 (''last_updated'', JStr (isoformat now3)),
                 (''access_count'', JInt 0)]"
  define meta where "meta = dict_update
                [(''agent'', JStr agent),
                 (''created_by'', JStr agent),
                 (''last_updated_by'', JStr agent)] md"
  define m where "m = [(''memory_id'', JStr nid),
             (''category'', JStr category),
             (''type'', JStr memory_type),
             (''content'', JObj c),
             (''metadata'', JObj meta)]"
  from md(2) have md_eq: "(case metadata of None \<Rightarrow> [] | Some md \<Rightarrow> md) = md" by auto
  have add: "add_memory disk category memory_type content metadata agent now1 now2 now3 =
      (case save_memory_file disk (JObj m) of Inl e \<Rightarrow> Inl e | Inr disk' \<Rightarrow> Inr (nid, disk'))"
    unfolding add_memory_def Let_def md_eq m_def c_def meta_def nid_def by (rule refl)
  have stamps: "map_of c ''created_at'' = Some (JStr (isoformat now2))"
    "map_of c ''last_updated'' = Some (JStr (isoformat now3))"
    "map_of c ''access_count'' = Some (JInt 0)"
    by (simp_all add: c_def map_of_dict_update)
  have metas: "\<forall>k. map_of meta k =
                  (case map_of md k of
                     Some v \<Rightarrow> Some v
                   | None \<Rightarrow> if k \<in> {''agent'', ''created_by'', ''last_updated_by''}
                              then Some (JStr agent) else None)"
    by (simp add: meta_def map_of_dict_update md(1) map_add_def split: option.splits)
  have persisted: "\<exists>st' d' m c meta.
               disk' = Some st' \<and>
               map_of st' category = Some d' \<and>
               map_of d' memory_id = Some (JObj m) \<and>
               map_of m ''content'' = Some (JObj c) \<and>
               map_of c ''created_at'' = Some (JStr (isoformat now2)) \<and>
               map_of c ''last_updated'' = Some (JStr (isoformat now3)) \<and>
               map_of c ''access_count'' = Some (JInt 0) \<and>
               map_of m ''metadata'' = Some (JObj meta) \<and>
               (\<forall>k. map_of meta k =
                  (case map_of md k of
                     Some v \<Rightarrow> Some v
                   | None \<Rightarrow> if k \<in> {''agent'', ''created_by'', ''last_updated_by''}
                              then Some (JStr agent) else None))"
    if run: "add_memory disk category memory_type content metadata agent now1 now2 now3 =
              Inr (memory_id, disk')" for memory_id disk'
  proof -
    from run add have save: "save_memory_file disk (JObj m) = Inr disk'" and id: "memory_id = nid"
      by (auto split: sum.splits)
    from save obtain st c0 stem d where w: "disk = Some st"
      "py_index (JObj m) ''category'' = Inr (JStr c0)"
      "py_index (JObj m) ''memory_id'' = Inr (JStr stem)"
      "disk' = Some (AList.update c0 (AList.update stem (JObj m) d) st)"
      by (rule save_memory_file_Inr)
    from w(2,3) have "c0 = category" "stem = nid" by (simp_all add: py_index_def m_def)
    with w(4) have "disk' = Some (AList.update category (AList.update nid (JObj m) d) st)"
      by simp
    moreover have "map_of m ''content'' = Some (JObj c)" "map_of m ''metadata'' = Some (JObj meta)"
      by (simp_all add: m_def)
    ultimately show ?thesis
      using stamps metas id
      by (intro exI [of _ "AList.update category (AList.update nid (JObj m) d) st"]
            exI [of _ "AList.update nid (JObj m) d"] exI [of _ m] exI [of _ c] exI [of _ meta])
         (simp add: update_conv')
  qed
  have returns: "\<exists>disk'. add_memory disk category memory_type content metadata agent
      now1 now2 now3 = Inr (category @ ''_'' @ memory_type @ ''_'' @ strftime_id now1, disk')"
    if "disk = Some st" "map_of st category = Some d" "plain_name category"
      "path_bytes memory_type" "length category + length memory_type + 22 \<le> 255" for st d
  proof -
    have "plain_stem nid" unfolding nid_def using that(3,4,5) by (rule plain_new_id)
    then have "save_memory_file (Some st) (JObj m) =
        Inr (Some (AList.update category (AList.update nid (JObj m) d) st))"
      using that(2,3) by (intro save_memory_file_new) (simp_all add: m_def)
    with add that(1) show ?thesis by (simp add: nid_def)
  qed
  from persisted returns show ?thesis by blast
qed

theorem add_memory_stamps_win_witness:
  "\<exists>st' d' m c meta.
     add_memory (Some example_store) ''sessions'' ''test''
        [(''title'', JStr ''T''), (''created_at'', JStr ''1999-01-01T00:00:00''),
         (''access_count'', JInt 99)]
        (Some [(''agent'', JStr ''bob'')]) ''system'' later later later =
       Inr (''sessions_test_20250602_115900'', Some st') \<and>
     map_of st' ''sessions'' = Some d' \<and>
     map_of d' ''sessions_test_20250602_115900'' = Some (JObj m) \<and>
     map_of m ''content'' = Some (JObj c) \<and>
     map_of c ''created_at'' = Some (JStr ''2025-06-02T11:59:00'') \<and>
     map_of c ''last_updated'' = Some (JStr ''2025-06-02T11:59:00'') \<and>
     map_of c ''access_count'' = Some (JInt 0) \<and>
     map_of m ''metadata'' = Some (JObj meta) \<and>
     map_of meta ''agent'' = Some (JStr ''bob'') \<and>
     map_of meta ''created_by'' = Some (JStr ''system'')"
proof -
  let ?add = "add_memory (Some example_store) ''sessions'' ''test''
        [(''title'', JStr ''T''), (''created_at'', JStr ''1999-01-01T00:00:00''),
         (''access_count'', JInt 99)]
        (Some [(''agent'', JStr ''bob'')]) ''system'' later later later"
  have dir: "map_of example_store ''sessions'' =
      Some [(ex_id, example_record
        (stamped example_content ''2025-06-01T12:00:00'' ''2025-06-01T12:00:00'' 5))]"
    by (simp add: example_store_def store_with_def ex_id_def)
  have id: "''sessions'' @ ''_'' @ ''test'' @ ''_'' @ strftime_id later =
      ''sessions_test_20250602_115900''"
    by (simp add: strftime_later)
  note both = add_memory_stamps_win [where md = "[(''agent'', JStr ''bob'')]"
        and metadata = "Some [(''agent'', JStr ''bob'')]" and disk = "Some example_store"
        and category = "''sessions''" and memory_type = "''test''"
        and content = "[(''title'', JStr ''T''), (''created_at'', JStr ''1999-01-01T00:00:00''),
                        (''access_count'', JInt 99)]"
        and agent = "''system''" and ?now1.0 = later and ?now2.0 = later and ?now3.0 = later,
        unfolded id isoformat_later]
  have md: "distinct (map fst [(''agent'', JStr ''bob'')])"
    "Some [(''agent'', JStr ''bob'')] = Some [(''agent'', JStr ''bob'')] \<or>
     Some [(''agent'', JStr ''bob'')] = None \<and> [(''agent'', JStr ''bob'')] = []"
    by simp_all
  from both [OF md, THEN conjunct2, rule_format, of example_store] dir
  obtain disk' where run: "?add = Inr (''sessions_test_20250602_115900'', disk')"
    by (auto simp: plain_sessions path_bytes_def)
  from both [OF md, THEN conjunct1, rule_format, OF run]
  obtain st' d' m c meta where
    "disk' = Some st'"
    "map_of st' ''sessions'' = Some d'"
    "map_of d' ''sessions_test_20250602_115900'' = Some (JObj m)"
    "map_of m ''content'' = Some (JObj c)"
    "map_of c ''created_at'' = Some (JStr ''2025-06-02T11:59:00'')"
    "map_of c ''last_updated'' = Some (JStr ''2025-06-02T11:59:00'')"
    "map_of c ''access_count'' = Some (JInt 0)"
    "map_of m ''metadata'' = Some (JObj meta)"
    and meta: "\<forall>k. map_of meta k =
              (case map_of [(''agent'', JStr ''bob'')] k of
                 Some v \<Rightarrow> Some v
               | None \<Rightarrow> if k \<in> {''agent'', ''created_by'', ''last_updated_by''}
                          then Some (JStr ''system'') else None)"
    by blast
  moreover from meta have "map_of meta ''agent'' = Some (JStr ''bob'')"
    "map_of meta ''created_by'' = Some (JStr ''system'')"
    by simp_all
  ultimately show ?thesis using run by blast
qed

section \<open>Updates and access counts\<close>










section \<open>The expiry sweep\<close>

lemma fromisoformat_epoch: "fromisoformat ''2025-01-01T00:00:00'' = Inr epoch"
  by (simp add: fromisoformat_def field_def digit_val_def valid_datetime_def days_in_month_def
        is_leap_def epoch_def)

lemma add_fresh:
  "add_memory (Some emptied_store) ''sessions'' ''test'' example_content None ''system''
      noon noon noon = Inr (ex_id, Some fresh_store)"
proof -
  have "plain_stem ''sessions_test_20250601_120000''"
    by (simp add: plain_stem_def)
  then show ?thesis
    by (simp add: add_memory_def isoformat_noon strftime_noon save_memory_file_def py_index_def
          emptied_store_def fresh_store_def store_with_def example_record_def stamped_def
          example_content_def dict_update_def dict_set_def ex_id_def Let_def plain_sessions)
qed

lemma age_of_fresh: "dt_diff later noon = timedelta_hours 24 - 60 * 1000000"
  by code_simp

lemma later_past_epoch: "dt_diff later epoch > timedelta_hours 24"
  by code_simp

text \<open>A document without a \<^verbatim>\<open>created_at\<close> key of its own is measured from the
  constant, whatever its content says.\<close>

lemma expired_no_key:
  assumes "map_of m ''created_at'' = None"
  shows "expired now (JObj m) = Inr (dt_diff now epoch > timedelta_hours 24)"
  using assms by (simp add: expired_def dict_get_def fromisoformat_epoch)

text \<open>When the document has a \<^verbatim>\<open>created_at\<close> key of its own, the sweep measures the
  age from it.\<close>

lemma expired_own_key:
  assumes "map_of m ''created_at'' = Some (JStr s)" "fromisoformat s = Inr t"
  shows "expired now (JObj m) = Inr (dt_diff now t > timedelta_hours 24)"
  using assms by (simp add: expired_def dict_get_def)

text \<open>
  Claim C1. The sweep reads \<^verbatim>\<open>created_at\<close> from the top level of the document, where a
  record of the store never has it: \<^verbatim>\<open>add_memory\<close> writes it under \<^verbatim>\<open>content\<close>. So
  the age of every stored record is measured from the constant 2025-01-01T00:00:00. Here a
  session record is created at noon and swept 23 hours and 59 minutes later: the sweep
  deletes it.
\<close>

theorem expiry_sweep_deletes_fresh_record:
  "add_memory (Some emptied_store) ''sessions'' ''test'' example_content None ''system''
      noon noon noon = Inr (ex_id, Some fresh_store) \<and>
   content_field (Some fresh_store) ex_id ''created_at'' = Some (JStr (isoformat noon)) \<and>
   dt_diff later noon < timedelta_hours 24 \<and>
   cleanup_expired_memories clock_later (Some fresh_store) = (Some emptied_store, None)"
proof (intro conjI)
  show "add_memory (Some emptied_store) ''sessions'' ''test'' example_content None ''system''
      noon noon noon = Inr (ex_id, Some fresh_store)"
    by (rule add_fresh)
  show "content_field (Some fresh_store) ex_id ''created_at'' = Some (JStr (isoformat noon))"
    by (simp add: fresh_store_def content_field_store_with stamped_def example_content_def
          isoformat_noon)
  show "dt_diff later noon < timedelta_hours 24"
    by (simp add: age_of_fresh timedelta_hours_def)
  have "expired later (example_record
       (stamped example_content ''2025-06-01T12:00:00'' ''2025-06-01T12:00:00'' 0)) = Inr True"
    unfolding example_record_def
    by (subst expired_no_key) (simp_all add: later_past_epoch)
  then show "cleanup_expired_memories clock_later (Some fresh_store) = (Some emptied_store, None)"
    by (simp add: cleanup_expired_memories_def fresh_store_def store_with_def clock_later_def
          emptied_store_def)
qed

end
